theory Spec2Isabelle
  imports Complex_Main "HOL-Library.Word"
begin

section \<open>Floating-point values\<close>

text \<open>
  NumPy arrays of the driver hold IEEE doubles. A sample is modelled by its value class:
  not-a-number, the two infinities, or a finite number. Finite arithmetic is exact real
  arithmetic (rounding, overflow to infinity and the sign of zero are not modelled); the
  special values follow IEEE 754, which is what NumPy's element-wise loops compute.
\<close>

datatype fl = NaN | PInf | NInf | Fin real

definition isnan :: "fl \<Rightarrow> bool" where
  "isnan x = (case x of NaN \<Rightarrow> True | _ \<Rightarrow> False)"

definition isfinite :: "fl \<Rightarrow> bool" where
  "isfinite x = (case x of Fin _ \<Rightarrow> True | _ \<Rightarrow> False)"

fun fl_neg :: "fl \<Rightarrow> fl" where
  "fl_neg NaN = NaN"
| "fl_neg PInf = NInf"
| "fl_neg NInf = PInf"
| "fl_neg (Fin a) = Fin (- a)"

fun fl_add :: "fl \<Rightarrow> fl \<Rightarrow> fl" where
  "fl_add NaN y = NaN"
| "fl_add x NaN = NaN"
| "fl_add PInf NInf = NaN"
| "fl_add NInf PInf = NaN"
| "fl_add PInf y = PInf"
| "fl_add NInf y = NInf"
| "fl_add (Fin a) PInf = PInf"
| "fl_add (Fin a) NInf = NInf"
| "fl_add (Fin a) (Fin b) = Fin (a + b)"

definition fl_sub :: "fl \<Rightarrow> fl \<Rightarrow> fl" where
  "fl_sub x y = fl_add x (fl_neg y)"

text \<open>The infinity with the sign of \<open>a\<close>, and not-a-number for \<open>a = 0\<close>.\<close>

definition inf_times :: "real \<Rightarrow> fl" where
  "inf_times a = (if a = 0 then NaN else if 0 < a then PInf else NInf)"

fun fl_mul :: "fl \<Rightarrow> fl \<Rightarrow> fl" where
  "fl_mul NaN y = NaN"
| "fl_mul x NaN = NaN"
| "fl_mul (Fin a) (Fin b) = Fin (a * b)"
| "fl_mul (Fin a) PInf = inf_times a"
| "fl_mul (Fin a) NInf = inf_times (- a)"
| "fl_mul PInf (Fin b) = inf_times b"
| "fl_mul NInf (Fin b) = inf_times (- b)"
| "fl_mul PInf PInf = PInf"
| "fl_mul PInf NInf = NInf"
| "fl_mul NInf PInf = NInf"
| "fl_mul NInf NInf = PInf"

text \<open>
  Division of doubles never raises in NumPy: \<open>x / 0\<close> is an infinity with the sign of
  \<open>x\<close>, and \<open>0 / 0\<close> is not-a-number (a zero divisor is taken as \<open>+0\<close>).
\<close>

fun fl_div :: "fl \<Rightarrow> fl \<Rightarrow> fl" where
  "fl_div NaN y = NaN"
| "fl_div x NaN = NaN"
| "fl_div (Fin a) (Fin b) = (if b = 0 then inf_times a else Fin (a / b))"
| "fl_div (Fin a) PInf = Fin 0"
| "fl_div (Fin a) NInf = Fin 0"
| "fl_div PInf (Fin b) = (if 0 \<le> b then PInf else NInf)"
| "fl_div NInf (Fin b) = (if 0 \<le> b then NInf else PInf)"
| "fl_div PInf y = NaN"
| "fl_div NInf y = NaN"

text \<open>\<open>np.mod\<close>: the remainder has the sign of the divisor (floored division).\<close>

fun np_mod :: "fl \<Rightarrow> fl \<Rightarrow> fl" where
  "np_mod NaN y = NaN"
| "np_mod x NaN = NaN"
| "np_mod PInf y = NaN"
| "np_mod NInf y = NaN"
| "np_mod (Fin a) (Fin b) = (if b = 0 then NaN else Fin (a - b * of_int \<lfloor>a / b\<rfloor>))"
| "np_mod (Fin a) PInf = (if 0 \<le> a then Fin a else PInf)"
| "np_mod (Fin a) NInf = (if a \<le> 0 then Fin a else NInf)"

fun fl_exp :: "fl \<Rightarrow> fl" where
  "fl_exp NaN = NaN"
| "fl_exp PInf = PInf"
| "fl_exp NInf = Fin 0"
| "fl_exp (Fin a) = Fin (exp a)"

text \<open>Complex doubles: real and imaginary part.\<close>

type_synonym cfl = "fl \<times> fl"

definition c_of_fl :: "fl \<Rightarrow> cfl" where
  "c_of_fl x = (x, Fin 0)"

definition c_add :: "cfl \<Rightarrow> cfl \<Rightarrow> cfl" where
  "c_add x y = (fl_add (fst x) (fst y), fl_add (snd x) (snd y))"

definition c_mul :: "cfl \<Rightarrow> cfl \<Rightarrow> cfl" where
  "c_mul x y = (fl_sub (fl_mul (fst x) (fst y)) (fl_mul (snd x) (snd y)),
                fl_add (fl_mul (fst x) (snd y)) (fl_mul (snd x) (fst y)))"

section \<open>Errors\<close>

datatype error = AttributeError string | IndexError | ValueError

section \<open>The device register interface\<close>

text \<open>
  Modelled from the spec: the device register interface (\<open>dvm\<close>) is an external
  collaborator whose code is not part of the driver. It offers bit set and bit clear on a
  register of a memory map, a scalar register read, and a buffered read of \<open>length\<close>
  samples from a memory map. Registers are 32-bit words addressed by map handle and
  offset; \<open>ram d m i\<close> is the sample a buffered read of map \<open>m\<close> delivers at index
  \<open>i\<close> (not-a-number when the reception failed).
\<close>

record device =
  regs :: "nat \<Rightarrow> nat \<Rightarrow> 32 word"
  ram :: "nat \<Rightarrow> nat \<Rightarrow> fl"

definition dvm_set_bit :: "device \<Rightarrow> nat \<Rightarrow> nat \<Rightarrow> nat \<Rightarrow> device" where
  "dvm_set_bit d m off i =
     d\<lparr>regs := (regs d)(m := (regs d m)(off := set_bit i (regs d m off)))\<rparr>"

definition dvm_clear_bit :: "device \<Rightarrow> nat \<Rightarrow> nat \<Rightarrow> nat \<Rightarrow> device" where
  "dvm_clear_bit d m off i =
     d\<lparr>regs := (regs d)(m := (regs d m)(off := unset_bit i (regs d m off)))\<rparr>"

definition dvm_read :: "device \<Rightarrow> nat \<Rightarrow> nat \<Rightarrow> 32 word" where
  "dvm_read d m off = regs d m off"

definition dvm_read_buffer :: "device \<Rightarrow> nat \<Rightarrow> nat \<Rightarrow> nat \<Rightarrow> fl list" where
  "dvm_read_buffer d m off len = map (ram d m) [off ..< off + len]"

section \<open>The base object\<close>

text \<open>
  The class \<open>Lase\<close> is imported by the driver and is not part of the sources at hand. The
  attributes of it that the driver reads are the fields of a record; its methods are
  taken as parameters (see \<open>ext\<close> below).
\<close>

record sampling_t =
  sampling_n :: nat
  f_fft :: "fl list"

record lase =
  lase_n :: nat
  dvm :: device
  sampling :: sampling_t
  config :: nat
  status :: nat
  addr_off :: nat
  avg1_off :: nat
  avg2_off :: nat
  n_avg1_off :: nat
  dac :: "fl list \<times> fl list"

section \<open>The oscillo driver object\<close>

text \<open>
  One field for each attribute that \<open>Oscillo.__init__\<close> assigns. The attributes
  \<open>_is_failed\<close> and \<open>amplitude_error\<close> are created by later assignments only, so
  they are optional: \<open>None\<close> is an object without the attribute. A two-row array is
  the pair of its rows.
\<close>

record oscillo =
  lase_base :: lase
  avg_off :: nat
  adc_1 :: nat
  adc_2 :: nat
  avg_on :: bool
  adc :: "fl list \<times> fl list"
  spectrum :: "cfl list \<times> cfl list"
  avg_spectrum :: "fl list \<times> fl list"
  ideal_amplitude_waveform :: "fl list"
  amplitude_transfer_function :: "cfl list"
  gaussian_filter :: "fl list"
  adc_offset :: "fl \<times> fl"
  optical_power :: "fl \<times> fl"
  power :: "fl \<times> fl"
  is_failed :: "bool option"
  amplitude_error :: "fl list option"

text \<open>
  Routines that live outside the driver: methods of \<open>Lase\<close> and of the register
  interface, NumPy's transforms and random source, and the complex operations whose
  treatment of special values is NumPy's business. A transform is given by its bins:
  \<open>np_fft x a k\<close> is bin \<open>k\<close> of the transform of \<open>a\<close>; the lengths of the results
  are written out below. \<open>np_rand x k i\<close> is number \<open>i\<close> of the \<open>k\<close>-th draw of the
  random source.
\<close>

record ext =
  Lase_reset :: "lase \<Rightarrow> lase"
  Lase_set_dac :: "lase \<Rightarrow> lase"
  add_memory_map :: "device \<Rightarrow> nat \<Rightarrow> nat \<Rightarrow> nat \<times> device"
  np_fft :: "cfl list \<Rightarrow> nat \<Rightarrow> cfl"
  np_ifft :: "cfl list \<Rightarrow> nat \<Rightarrow> cfl"
  np_irfft :: "cfl list \<Rightarrow> nat \<Rightarrow> fl"
  np_rand :: "nat \<Rightarrow> nat \<Rightarrow> fl"
  c_div :: "cfl \<Rightarrow> cfl \<Rightarrow> cfl"
  c_abs :: "cfl \<Rightarrow> fl"
  c_exp :: "cfl \<Rightarrow> cfl"

type_synonym 'a result = "(error + 'a) \<times> oscillo"

subsection \<open>Averaging switch and reset\<close>

definition set_averaging :: "bool \<Rightarrow> oscillo \<Rightarrow> oscillo" where
  "set_averaging on self =
     (let self1 = self\<lparr>avg_on := on\<rparr>; lb = lase_base self1 in
      if avg_on self1
      then self1\<lparr>lase_base := lb\<lparr>dvm :=
             dvm_clear_bit (dvm_clear_bit (dvm lb) (config lb) (avg1_off lb) 0)
                           (config lb) (avg2_off lb) 0\<rparr>\<rparr>
      else self1\<lparr>lase_base := lb\<lparr>dvm :=
             dvm_set_bit (dvm_set_bit (dvm lb) (config lb) (avg1_off lb) 0)
                         (config lb) (avg2_off lb) 0\<rparr>\<rparr>)"

definition reset :: "ext \<Rightarrow> oscillo \<Rightarrow> oscillo" where
  "reset x self =
     (let self1 = self\<lparr>lase_base := Lase_reset x (lase_base self)\<rparr>;
          self2 = self1\<lparr>avg_on := False\<rparr>
      in set_averaging (avg_on self2) self2)"

subsection \<open>Construction\<close>

definition sigma_freq :: real where
  "sigma_freq = 5000000"

definition gaussian :: "fl \<Rightarrow> fl" where
  "gaussian f =
     fl_mul (Fin 1)
       (fl_exp (fl_div (fl_mul (Fin (- 1)) (fl_mul f f)) (Fin (2 * sigma_freq ^ 2))))"

text \<open>
  \<open>init x lb map_size\<close> is \<open>Oscillo.__init__\<close>, where \<open>lb\<close> is the object that
  \<open>Lase(8192, client, ...)\<close> has built.
\<close>

definition init :: "ext \<Rightarrow> lase \<Rightarrow> nat \<Rightarrow> oscillo" where
  "init x lb map_size =
     (let m1 = add_memory_map x (dvm lb) 0x42000000 (lase_n lb div 1024 * map_size);
          m2 = add_memory_map x (snd m1) 0x44000000 (lase_n lb div 1024 * map_size);
          lb1 = lb\<lparr>dvm := snd m2\<rparr>
      in reset x
           \<lparr>lase_base = lb1,
            avg_off = 24,
            adc_1 = fst m1,
            adc_2 = fst m2,
            avg_on = False,
            adc = (replicate (lase_n lb1) (Fin 0), replicate (lase_n lb1) (Fin 0)),
            spectrum = (replicate (lase_n lb1 div 2) (c_of_fl (Fin 0)),
                        replicate (lase_n lb1 div 2) (c_of_fl (Fin 0))),
            avg_spectrum = (replicate (lase_n lb1 div 2) (Fin 0),
                            replicate (lase_n lb1 div 2) (Fin 0)),
            ideal_amplitude_waveform = replicate (lase_n lb1) (Fin 0),
            amplitude_transfer_function =
              replicate (sampling_n (sampling lb1)) (c_of_fl (Fin 1)),
            gaussian_filter = map gaussian (f_fft (sampling lb1)),
            adc_offset = (Fin 0, Fin 0),
            optical_power = (Fin 1, Fin 1),
            power = (Fin 1, Fin 1),
            is_failed = None,
            amplitude_error = None\<rparr>)"

subsection \<open>Acquisition\<close>

text \<open>
  Assignment to a whole row, \<open>a[i,:] = buf\<close>: the buffer must have the row's length, or
  a single element that is repeated; otherwise NumPy raises \<open>ValueError\<close>.
\<close>

definition assign_row :: "'a list \<Rightarrow> 'a list \<Rightarrow> error + 'a list" where
  "assign_row row buf =
     (if length buf = length row then Inr buf
      else if length buf = 1 then Inr (replicate (length row) (hd buf))
      else Inl ValueError)"

definition unwrap :: "fl \<Rightarrow> fl" where
  "unwrap x = fl_sub (np_mod (fl_sub x (Fin (2 ^ 31))) (Fin (2 ^ 32))) (Fin (2 ^ 31))"

definition map_both :: "('a \<Rightarrow> 'b) \<Rightarrow> 'a list \<times> 'a list \<Rightarrow> 'b list \<times> 'b list" where
  "map_both f a = (map f (fst a), map f (snd a))"

text \<open>The first sample of a row; \<open>IndexError\<close> on an empty row.\<close>

definition first_sample :: "'a list \<Rightarrow> error + 'a" where
  "first_sample row = (case row of [] \<Rightarrow> Inl IndexError | v # _ \<Rightarrow> Inr v)"

text \<open>
  \<open>np.isnan(self.adc[0,0]) or np.isnan(self.adc[1,0])\<close>, evaluated from left to right
  with the short cut of \<open>or\<close>.
\<close>

definition reception_failed :: "fl list \<times> fl list \<Rightarrow> error + bool" where
  "reception_failed a =
     (case first_sample (fst a) of
        Inl e \<Rightarrow> Inl e
      | Inr v0 \<Rightarrow>
          if isnan v0 then Inr True
          else (case first_sample (snd a) of
                  Inl e \<Rightarrow> Inl e
                | Inr v1 \<Rightarrow> Inr (isnan v1)))"

text \<open>The part of \<open>get_adc\<close> after the reception check (lines 72 to 83).\<close>

definition correct_adc :: "oscillo \<Rightarrow> oscillo" where
  "correct_adc self =
     (let self1 = self\<lparr>adc := map_both unwrap (adc self)\<rparr>;
          lb = lase_base self1;
          self2 =
            (if avg_on self1
             then (let n_avg1 = dvm_read (dvm lb) (status lb) (n_avg1_off lb)
                   in self1\<lparr>adc := map_both (\<lambda>v. fl_div v (Fin (real (unat n_avg1))))
                                      (adc self1)\<rparr>)
             else self1);
          lb2 = lase_base self2;
          self3 = self2\<lparr>lase_base :=
                    lb2\<lparr>dvm := dvm_clear_bit (dvm lb2) (config lb2) (addr_off lb2) 1\<rparr>\<rparr>;
          self4 = self3\<lparr>adc := (map (\<lambda>v. fl_sub v (fst (adc_offset self3))) (fst (adc self3)),
                                snd (adc self3))\<rparr>;
          self5 = self4\<lparr>adc := (fst (adc self4),
                                map (\<lambda>v. fl_sub v (snd (adc_offset self4))) (snd (adc self4)))\<rparr>;
          self6 = self5\<lparr>adc :=
                    (map (\<lambda>v. fl_mul v (fl_div (fst (optical_power self5)) (fst (power self5))))
                       (fst (adc self5)),
                     snd (adc self5))\<rparr>
      in self6\<lparr>adc :=
                 (fst (adc self6),
                  map (\<lambda>v. fl_mul v (fl_div (snd (optical_power self6)) (snd (power self6))))
                    (snd (adc self6)))\<rparr>)"

definition get_adc :: "oscillo \<Rightarrow> unit result" where
  "get_adc self =
     (let lb = lase_base self;
          self1 = self\<lparr>lase_base :=
                    lb\<lparr>dvm := dvm_set_bit (dvm lb) (config lb) (addr_off lb) 1\<rparr>\<rparr>;
          lb1 = lase_base self1
      in case assign_row (fst (adc self1))
                (dvm_read_buffer (dvm lb1) (adc_1 self1) 0 (lase_n lb1)) of
           Inl e \<Rightarrow> (Inl e, self1)
         | Inr row0 \<Rightarrow>
             (let self2 = self1\<lparr>adc := (row0, snd (adc self1))\<rparr> in
              case assign_row (snd (adc self2))
                     (dvm_read_buffer (dvm lb1) (adc_2 self2) 0 (lase_n lb1)) of
                Inl e \<Rightarrow> (Inl e, self2)
              | Inr row1 \<Rightarrow>
                  (let self3 = self2\<lparr>adc := (fst (adc self2), row1)\<rparr> in
                   case reception_failed (adc self3) of
                     Inl e \<Rightarrow> (Inl e, self3)
                   | Inr True \<Rightarrow> (Inr (), self3\<lparr>is_failed := Some True\<rparr>)
                   | Inr False \<Rightarrow> (Inr (), correct_adc self3))))"

subsection \<open>Attribute lookup\<close>

text \<open>
  \<open>Oscillo\<close> has no base class and no \<open>__getattr__\<close>: \<open>self.name\<close> finds what the
  object's own dictionary or the class holds and raises \<open>AttributeError\<close> otherwise.
  The object's dictionary holds what \<open>__init__\<close> has assigned, and \<open>_is_failed\<close> and
  \<open>amplitude_error\<close> once they have been assigned.
\<close>

definition instance_attributes :: "oscillo \<Rightarrow> string list" where
  "instance_attributes self =
     [''lase_base'', ''_avg_off'', ''_adc_1'', ''_adc_2'', ''avg_on'', ''adc'', ''spectrum'',
      ''avg_spectrum'', ''ideal_amplitude_waveform'', ''amplitude_transfer_function'',
      ''gaussian_filter'', ''adc_offset'', ''optical_power'', ''power'']
     @ (case is_failed self of None \<Rightarrow> [] | Some _ \<Rightarrow> [''_is_failed''])
     @ (case amplitude_error self of None \<Rightarrow> [] | Some _ \<Rightarrow> [''amplitude_error''])"

definition class_attributes :: "string list" where
  "class_attributes =
     [''__doc__'', ''__module__'', ''__init__'', ''reset'', ''set_averaging'', ''get_adc'',
      ''_white_noise'', ''get_amplitude_transfer_function'', ''get_correction'',
      ''optimize_amplitude'', ''get_spectrum'', ''get_avg_spectrum'',
      ''set_amplitude_transfer_function'']"

text \<open>
  \<open>getattr self name v\<close> is the lookup of \<open>self.name\<close>, where \<open>v\<close> is the value
  held under that name. The methods below read \<open>self.sampling\<close>, \<open>self.dac\<close> and
  \<open>self.set_dac\<close>; what follows such a lookup is written against the attribute of that
  name of the base object, which is where \<open>__init__\<close> and \<open>get_adc\<close> find it
  (\<open>self.lase_base.sampling\<close>).
\<close>

definition getattr :: "oscillo \<Rightarrow> string \<Rightarrow> 'a \<Rightarrow> error + 'a" where
  "getattr self name v =
     (if name \<in> set (instance_attributes self @ class_attributes) then Inr v
      else Inl (AttributeError name))"

subsection \<open>Array helpers\<close>

definition bindE :: "error + 'a \<Rightarrow> ('a \<Rightarrow> error + 'b) \<Rightarrow> error + 'b" where
  "bindE m f = (case m of Inl e \<Rightarrow> Inl e | Inr v \<Rightarrow> f v)"

text \<open>\<open>a[i] = v\<close> for an index \<open>i \<ge> 0\<close>.\<close>

definition set_item :: "'a list \<Rightarrow> nat \<Rightarrow> 'a \<Rightarrow> error + 'a list" where
  "set_item a i v = (if i < length a then Inr (a[i := v]) else Inl IndexError)"

text \<open>An element-wise operation of two one-dimensional arrays, with broadcasting.\<close>

definition broadcast2 :: "('a \<Rightarrow> 'b \<Rightarrow> 'c) \<Rightarrow> 'a list \<Rightarrow> 'b list \<Rightarrow> error + 'c list" where
  "broadcast2 f a b =
     (if length a = length b then Inr (map2 f a b)
      else if length a = 1 then Inr (map (f (hd a)) b)
      else if length b = 1 then Inr (map (\<lambda>v. f v (hd b)) a)
      else Inl ValueError)"

text \<open>An in-place operation \<open>a op= b\<close>: only \<open>b\<close> may be broadcast.\<close>

definition inplace :: "('a \<Rightarrow> 'b \<Rightarrow> 'a) \<Rightarrow> 'a list \<Rightarrow> 'b list \<Rightarrow> error + 'a list" where
  "inplace f a b =
     (if length b = length a then Inr (map2 f a b)
      else if length b = 1 then Inr (map (\<lambda>v. f v (hd b)) a)
      else Inl ValueError)"

text \<open>Row \<open>i\<close> of a two-row array; the valid indices are \<open>-2, -1, 0, 1\<close>.\<close>

definition row :: "int \<Rightarrow> 'a \<times> 'a \<Rightarrow> error + 'a" where
  "row i a =
     (if i = 0 \<or> i = - 2 then Inr (fst a)
      else if i = 1 \<or> i = - 1 then Inr (snd a)
      else Inl IndexError)"

definition set_row :: "int \<Rightarrow> 'a \<Rightarrow> 'a \<times> 'a \<Rightarrow> error + 'a \<times> 'a" where
  "set_row i r a =
     (if i = 0 \<or> i = - 2 then Inr (r, snd a)
      else if i = 1 \<or> i = - 1 then Inr (fst a, r)
      else Inl IndexError)"

fun fl_abs :: "fl \<Rightarrow> fl" where
  "fl_abs NaN = NaN"
| "fl_abs PInf = PInf"
| "fl_abs NInf = PInf"
| "fl_abs (Fin a) = Fin \<bar>a\<bar>"

fun fl_max :: "fl \<Rightarrow> fl \<Rightarrow> fl" where
  "fl_max NaN y = NaN"
| "fl_max x NaN = NaN"
| "fl_max PInf y = PInf"
| "fl_max x PInf = PInf"
| "fl_max NInf y = y"
| "fl_max x NInf = x"
| "fl_max (Fin a) (Fin b) = Fin (max a b)"

definition np_max :: "fl list \<Rightarrow> error + fl" where
  "np_max a = (case a of [] \<Rightarrow> Inl ValueError | v # vs \<Rightarrow> Inr (fold fl_max vs v))"

definition np_mean :: "fl list \<Rightarrow> fl" where
  "np_mean a = fl_div (fold (\<lambda>v acc. fl_add acc v) a (Fin 0)) (Fin (real (length a)))"

text \<open>
  The transforms: \<open>fft\<close> and \<open>ifft\<close> keep the length, \<open>irfft\<close> of \<open>m\<close> bins has
  \<open>2 * (m - 1)\<close> samples, and a transform of no points raises \<open>ValueError\<close>.
\<close>

definition fft :: "ext \<Rightarrow> cfl list \<Rightarrow> error + cfl list" where
  "fft x a = (if length a < 1 then Inl ValueError
              else Inr (map (np_fft x a) [0 ..< length a]))"

definition ifft :: "ext \<Rightarrow> cfl list \<Rightarrow> error + cfl list" where
  "ifft x a = (if length a < 1 then Inl ValueError
               else Inr (map (np_ifft x a) [0 ..< length a]))"

definition irfft :: "ext \<Rightarrow> cfl list \<Rightarrow> error + fl list" where
  "irfft x a = (if 2 * (length a - 1) < 1 then Inl ValueError
                else Inr (map (np_irfft x a) [0 ..< 2 * (length a - 1)]))"

subsection \<open>The probe generator\<close>

text \<open>\<open>white_noise x k n_freqs n_stop self\<close> is \<open>self._white_noise(n_freqs, n_stop)\<close>
  on the \<open>k\<close>-th draw of the random source.\<close>

definition white_noise :: "ext \<Rightarrow> nat \<Rightarrow> nat \<Rightarrow> nat option \<Rightarrow> oscillo \<Rightarrow> error + fl list" where
  "white_noise x k n_freqs n_stop self =
     (let n_stop1 = (case n_stop of None \<Rightarrow> n_freqs | Some m \<Rightarrow> m);
          amplitudes = map (\<lambda>i. if i < n_stop1 then Fin 1 else Fin 0) [0 ..< n_freqs];
          random_phases = map (\<lambda>i. fl_mul (Fin (2 * pi)) (np_rand x k i)) [0 ..< n_freqs];
          phasors = map (\<lambda>p. c_exp x (c_mul (Fin 0, Fin 1) (c_of_fl p))) random_phases
      in bindE (broadcast2 (\<lambda>a e. c_mul (c_of_fl a) e) amplitudes phasors) (\<lambda>spec.
         bindE (irfft x spec) (\<lambda>wn0.
         bindE (fft x (map c_of_fl wn0)) (\<lambda>wn1.
         bindE (set_item wn1 0 (c_of_fl (Fin (1 / 100)))) (\<lambda>wn2.
         bindE (getattr self ''sampling'' (sampling (lase_base self))) (\<lambda>smp.
         bindE (set_item wn2 (sampling_n smp div 2) (c_of_fl (Fin 1))) (\<lambda>wn3.
         bindE (ifft x wn3) (\<lambda>wn4.
         (let wn5 = map fst wn4 in
          bindE (np_max (map fl_abs wn5)) (\<lambda>peak.
          Inr (map (\<lambda>v. fl_div v (fl_mul (Fin (17 / 10)) peak)) wn5)))))))))))"

subsection \<open>The transfer-function estimator\<close>

text \<open>One pass of the loop body (lines 105 to 110), on the \<open>k\<close>-th draw.\<close>

definition transfer_step :: "ext \<Rightarrow> nat \<Rightarrow> int \<Rightarrow> int \<Rightarrow> nat \<Rightarrow> oscillo \<Rightarrow> unit result" where
  "transfer_step x n_freqs channel_dac channel_adc k self =
     (case white_noise x k n_freqs None self of
        Inl e \<Rightarrow> (Inl e, self)
      | Inr wn \<Rightarrow>
     (case bindE (getattr self ''dac'' (dac (lase_base self))) (\<lambda>d.
           bindE (row channel_dac d) (\<lambda>old.
           bindE (assign_row old wn) (\<lambda>new. set_row channel_dac new d))) of
        Inl e \<Rightarrow> (Inl e, self)
      | Inr d1 \<Rightarrow>
     (let self1 = self\<lparr>lase_base := (lase_base self)\<lparr>dac := d1\<rparr>\<rparr> in
      case getattr self1 ''set_dac'' (Lase_set_dac x) of
        Inl e \<Rightarrow> (Inl e, self1)
      | Inr set_dac \<Rightarrow>
     (let self2 = self1\<lparr>lase_base := set_dac (lase_base self1)\<rparr> in
      case get_adc self2 of
        (Inl e, self3) \<Rightarrow> (Inl e, self3)
      | (Inr _, self3) \<Rightarrow>
     (case bindE (row channel_adc (adc self3)) (\<lambda>r.
           bindE (fft x (map c_of_fl r)) (\<lambda>num.
           bindE (fft x (map c_of_fl wn)) (\<lambda>den.
           bindE (broadcast2 (c_div x) num den) (\<lambda>ratio.
           inplace c_add (amplitude_transfer_function self3) ratio)))) of
        Inl e \<Rightarrow> (Inl e, self3)
      | Inr acc \<Rightarrow> (Inr (), self3\<lparr>amplitude_transfer_function := acc\<rparr>))))))"

text \<open>\<open>for i in range(transfer_avg)\<close>: \<open>r\<close> passes are left, the next one is pass \<open>k\<close>.\<close>

fun transfer_loop :: "ext \<Rightarrow> nat \<Rightarrow> int \<Rightarrow> int \<Rightarrow> nat \<Rightarrow> nat \<Rightarrow> oscillo \<Rightarrow> unit result" where
  "transfer_loop x n_freqs channel_dac channel_adc k 0 self = (Inr (), self)"
| "transfer_loop x n_freqs channel_dac channel_adc k (Suc r) self =
     (case transfer_step x n_freqs channel_dac channel_adc k self of
        (Inl e, self1) \<Rightarrow> (Inl e, self1)
      | (Inr _, self1) \<Rightarrow> transfer_loop x n_freqs channel_dac channel_adc (Suc k) r self1)"

definition get_amplitude_transfer_function ::
  "ext \<Rightarrow> int \<Rightarrow> int \<Rightarrow> int \<Rightarrow> oscillo \<Rightarrow> unit result" where
  "get_amplitude_transfer_function x channel_dac channel_adc transfer_avg self =
     (case getattr self ''sampling'' (sampling (lase_base self)) of
        Inl e \<Rightarrow> (Inl e, self)
      | Inr smp \<Rightarrow>
     (let n_freqs = sampling_n smp div 2 + 1;
          self1 = self\<lparr>amplitude_transfer_function :=
                    map (\<lambda>z. c_mul z (c_of_fl (Fin 0))) (amplitude_transfer_function self)\<rparr>
      in case transfer_loop x n_freqs channel_dac channel_adc 0 (nat transfer_avg) self1 of
        (Inl e, self2) \<Rightarrow> (Inl e, self2)
      | (Inr _, self2) \<Rightarrow>
     (let self3 = self2\<lparr>amplitude_transfer_function :=
                    map (\<lambda>z. c_div x z (c_of_fl (Fin (real_of_int transfer_avg))))
                      (amplitude_transfer_function self2)\<rparr>
      in case set_item (amplitude_transfer_function self3) 0 (c_of_fl (Fin 1)) of
        Inl e \<Rightarrow> (Inl e, self3)
      | Inr tf \<Rightarrow>
     (let self4 = self3\<lparr>amplitude_transfer_function := tf\<rparr> in
      case bindE (getattr self4 ''sampling'' (sampling (lase_base self4))) (\<lambda>smp1.
           bindE (getattr self4 ''dac'' (dac (lase_base self4))) (\<lambda>d.
           bindE (row channel_dac d) (\<lambda>old.
           bindE (assign_row old (replicate (sampling_n smp1) (Fin 0))) (\<lambda>new.
           set_row channel_dac new d)))) of
        Inl e \<Rightarrow> (Inl e, self4)
      | Inr d1 \<Rightarrow>
     (let self5 = self4\<lparr>lase_base := (lase_base self4)\<lparr>dac := d1\<rparr>\<rparr> in
      case getattr self5 ''set_dac'' (Lase_set_dac x) of
        Inl e \<Rightarrow> (Inl e, self5)
      | Inr set_dac \<Rightarrow> (Inr (), self5\<lparr>lase_base := set_dac (lase_base self5)\<rparr>))))))"

subsection \<open>The correction filter\<close>

definition get_correction :: "ext \<Rightarrow> oscillo \<Rightarrow> error + fl list" where
  "get_correction x self =
     bindE (case amplitude_error self of
              None \<Rightarrow> Inl (AttributeError ''amplitude_error'')
            | Some err \<Rightarrow> Inr err) (\<lambda>err.
     bindE (fft x (map c_of_fl err)) (\<lambda>spec.
     bindE (broadcast2 (c_div x) spec (amplitude_transfer_function self)) (\<lambda>tmp.
     bindE (set_item tmp 0 (c_of_fl (Fin 0))) (\<lambda>tmp1.
     bindE (broadcast2 (\<lambda>g z. c_mul (c_of_fl g) z) (gaussian_filter self) tmp1) (\<lambda>tmp2.
     bindE (ifft x tmp2) (\<lambda>wave. Inr (map fst wave)))))))"

definition optimize_amplitude :: "ext \<Rightarrow> fl \<Rightarrow> int \<Rightarrow> oscillo \<Rightarrow> unit result" where
  "optimize_amplitude x alpha channel self =
     (let row0 = fst (adc self);
          centred = map (\<lambda>v. fl_sub v (np_mean row0)) row0
      in case broadcast2 fl_sub centred (ideal_amplitude_waveform self) of
        Inl e \<Rightarrow> (Inl e, self)
      | Inr err \<Rightarrow>
     (let self1 = self\<lparr>amplitude_error := Some err\<rparr> in
      case bindE (getattr self1 ''dac'' (dac (lase_base self1))) (\<lambda>d.
           bindE (row channel d) (\<lambda>old.
           bindE (get_correction x self1) (\<lambda>corr.
           bindE (inplace fl_sub old (map (fl_mul alpha) corr)) (\<lambda>new.
           set_row channel new d)))) of
        Inl e \<Rightarrow> (Inl e, self1)
      | Inr d1 \<Rightarrow> (Inr (), self1\<lparr>lase_base := (lase_base self1)\<lparr>dac := d1\<rparr>\<rparr>)))"

subsection \<open>Spectra\<close>

definition get_spectrum :: "ext \<Rightarrow> oscillo \<Rightarrow> unit result" where
  "get_spectrum x self =
     (case bindE (fft x (map c_of_fl (fst (adc self)))) (\<lambda>f0.
           bindE (fft x (map c_of_fl (snd (adc self)))) (\<lambda>f1.
           bindE (getattr self ''sampling'' (sampling (lase_base self))) (\<lambda>smp.
           Inr (take (sampling_n smp div 2) f0, take (sampling_n smp div 2) f1)))) of
        Inl e \<Rightarrow> (Inl e, self)
      | Inr sp \<Rightarrow> (Inr (), self\<lparr>spectrum := sp\<rparr>))"

text \<open>One pass of the loop of \<open>get_avg_spectrum\<close> (lines 133 to 135).\<close>

definition avg_step :: "ext \<Rightarrow> oscillo \<Rightarrow> unit result" where
  "avg_step x self =
     (case get_adc self of
        (Inl e, self1) \<Rightarrow> (Inl e, self1)
      | (Inr _, self1) \<Rightarrow>
     (case bindE (fft x (map c_of_fl (fst (adc self1)))) (\<lambda>f0.
           bindE (fft x (map c_of_fl (snd (adc self1)))) (\<lambda>f1.
           bindE (getattr self1 ''sampling'' (sampling (lase_base self1))) (\<lambda>smp.
           bindE (inplace fl_add (fst (avg_spectrum self1))
                    (take (sampling_n smp div 2) (map (c_abs x) f0))) (\<lambda>a0.
           bindE (inplace fl_add (snd (avg_spectrum self1))
                    (take (sampling_n smp div 2) (map (c_abs x) f1))) (\<lambda>a1.
           Inr (a0, a1)))))) of
        Inl e \<Rightarrow> (Inl e, self1)
      | Inr a \<Rightarrow> (Inr (), self1\<lparr>avg_spectrum := a\<rparr>)))"

fun avg_loop :: "ext \<Rightarrow> nat \<Rightarrow> oscillo \<Rightarrow> unit result" where
  "avg_loop x 0 self = (Inr (), self)"
| "avg_loop x (Suc r) self =
     (case avg_step x self of
        (Inl e, self1) \<Rightarrow> (Inl e, self1)
      | (Inr _, self1) \<Rightarrow> avg_loop x r self1)"

definition get_avg_spectrum :: "ext \<Rightarrow> int \<Rightarrow> oscillo \<Rightarrow> unit result" where
  "get_avg_spectrum x n_avg self =
     (case getattr self ''sampling'' (sampling (lase_base self)) of
        Inl e \<Rightarrow> (Inl e, self)
      | Inr smp \<Rightarrow>
     (let self1 = self\<lparr>avg_spectrum := (replicate (sampling_n smp div 2) (Fin 0),
                                        replicate (sampling_n smp div 2) (Fin 0))\<rparr>
      in case avg_loop x (nat n_avg) self1 of
        (Inl e, self2) \<Rightarrow> (Inl e, self2)
      | (Inr _, self2) \<Rightarrow>
          (Inr (), self2\<lparr>avg_spectrum :=
                     map_both (\<lambda>v. fl_div v (Fin (real_of_int n_avg))) (avg_spectrum self2)\<rparr>)))"

definition set_amplitude_transfer_function :: "cfl list \<Rightarrow> oscillo \<Rightarrow> oscillo" where
  "set_amplitude_transfer_function tf self = self\<lparr>amplitude_transfer_function := tf\<rparr>"

section \<open>Vocabulary of the properties\<close>

text \<open>The two buffers as the register interface delivers them to \<open>get_adc\<close>.\<close>

definition captured :: "oscillo \<Rightarrow> fl list \<times> fl list" where
  "captured self =
     (dvm_read_buffer (dvm (lase_base self)) (adc_1 self) 0 (lase_n (lase_base self)),
      dvm_read_buffer (dvm (lase_base self)) (adc_2 self) 0 (lase_n (lase_base self)))"

text \<open>The shape \<open>__init__\<close> gives to \<open>self.adc\<close>: two rows of \<open>n\<close> samples.\<close>

definition shaped :: "oscillo \<Rightarrow> bool" where
  "shaped self =
     (length (fst (adc self)) = lase_n (lase_base self) \<and>
      length (snd (adc self)) = lase_n (lase_base self))"

text \<open>The object after the first statement of \<open>get_adc\<close>, and the address-strobe bit.\<close>

definition strobe_on :: "oscillo \<Rightarrow> oscillo" where
  "strobe_on self =
     self\<lparr>lase_base := (lase_base self)\<lparr>dvm :=
       dvm_set_bit (dvm (lase_base self)) (config (lase_base self))
         (addr_off (lase_base self)) 1\<rparr>\<rparr>"

definition strobe :: "oscillo \<Rightarrow> bool" where
  "strobe self =
     bit (regs (dvm (lase_base self)) (config (lase_base self)) (addr_off (lase_base self))) 1"

text \<open>The averaging count that \<open>get_adc\<close> reads while the strobe is set.\<close>

definition avg_count :: "oscillo \<Rightarrow> nat" where
  "avg_count self =
     unat (dvm_read (dvm (lase_base (strobe_on self))) (status (lase_base self))
             (n_avg1_off (lase_base self)))"

text \<open>The calls a client can make on the object, and the object they leave behind
  (also when they raise).\<close>

datatype call =
    Reset
  | Set_averaging bool
  | Get_adc
  | White_noise nat nat "nat option"
  | Get_amplitude_transfer_function int int int
  | Get_correction
  | Optimize_amplitude fl int
  | Get_spectrum
  | Get_avg_spectrum int
  | Set_amplitude_transfer_function "cfl list"

fun run :: "ext \<Rightarrow> call \<Rightarrow> oscillo \<Rightarrow> oscillo" where
  "run x Reset self = reset x self"
| "run x (Set_averaging on) self = set_averaging on self"
| "run x Get_adc self = snd (get_adc self)"
| "run x (White_noise k n_freqs n_stop) self = self"
| "run x (Get_amplitude_transfer_function channel_dac channel_adc transfer_avg) self =
     snd (get_amplitude_transfer_function x channel_dac channel_adc transfer_avg self)"
| "run x Get_correction self = self"
| "run x (Optimize_amplitude alpha channel) self = snd (optimize_amplitude x alpha channel self)"
| "run x Get_spectrum self = snd (get_spectrum x self)"
| "run x (Get_avg_spectrum n_avg) self = snd (get_avg_spectrum x n_avg self)"
| "run x (Set_amplitude_transfer_function tf) self = set_amplitude_transfer_function tf self"

fun run_all :: "ext \<Rightarrow> call list \<Rightarrow> oscillo \<Rightarrow> oscillo" where
  "run_all x [] self = self"
| "run_all x (c # cs) self = run_all x cs (run x c self)"

text \<open>The one call by which a client replaces the transfer function.\<close>

fun is_setter :: "call \<Rightarrow> bool" where
  "is_setter (Set_amplitude_transfer_function tf) = True"
| "is_setter c = False"

section \<open>An example controller\<close>

text \<open>
  A device whose registers read zero and whose buffered reads deliver the sample \<open>v\<close>
  everywhere, a base object of 8192 samples on it, and the controller that \<open>__init__\<close>
  builds from them.
\<close>

definition example_device :: "fl \<Rightarrow> device" where
  "example_device v = \<lparr>regs = (\<lambda>m off. 0), ram = (\<lambda>m i. v)\<rparr>"

definition example_lase :: "fl \<Rightarrow> lase" where
  "example_lase v =
     \<lparr>lase_n = 8192,
      dvm = example_device v,
      sampling = \<lparr>sampling_n = 8192, f_fft = replicate 8192 (Fin 0)\<rparr>,
      config = 0,
      status = 1,
      addr_off = 1,
      avg1_off = 2,
      avg2_off = 3,
      n_avg1_off = 4,
      dac = (replicate 8192 (Fin 0), replicate 8192 (Fin 0))\<rparr>"

definition example_ext :: ext where
  "example_ext =
     \<lparr>Lase_reset = (\<lambda>lb. lb),
      Lase_set_dac = (\<lambda>lb. lb),
      add_memory_map = (\<lambda>d addr size. (addr, d)),
      np_fft = (\<lambda>a k. (Fin 0, Fin 0)),
      np_ifft = (\<lambda>a k. (Fin 0, Fin 0)),
      np_irfft = (\<lambda>a k. Fin 0),
      np_rand = (\<lambda>k i. Fin 0),
      c_div = (\<lambda>a b. a),
      c_abs = fst,
      c_exp = (\<lambda>z. z)\<rparr>"

definition example_oscillo :: "fl \<Rightarrow> oscillo" where
  "example_oscillo v = init example_ext (example_lase v) 4096"



section \<open>Properties of the acquisition\<close>

lemma read_buffer_set_bit [simp]:
  "dvm_read_buffer (dvm_set_bit d m off i) m' off' len = dvm_read_buffer d m' off' len"
  by (simp add: dvm_read_buffer_def dvm_set_bit_def)

lemma length_read_buffer [simp]: "length (dvm_read_buffer d m off len) = len"
  by (simp add: dvm_read_buffer_def)

lemma assign_row_same: "length buf = length r \<Longrightarrow> assign_row r buf = Inr buf"
  by (simp add: assign_row_def)

lemma get_adc_read:
  assumes "shaped self"
  shows "get_adc self =
     (case reception_failed (captured self) of
        Inl e \<Rightarrow> (Inl e, strobe_on self\<lparr>adc := captured self\<rparr>)
      | Inr True \<Rightarrow> (Inr (), strobe_on self\<lparr>adc := captured self, is_failed := Some True\<rparr>)
      | Inr False \<Rightarrow> (Inr (), correct_adc (strobe_on self\<lparr>adc := captured self\<rparr>)))"
  using assms
  by (simp add: get_adc_def shaped_def captured_def strobe_on_def Let_def assign_row_same
           split: sum.splits bool.splits)

lemma unwrap_Fin:
  "unwrap (Fin x) = Fin (x - 2 ^ 31 - 2 ^ 32 * of_int \<lfloor>(x - 2 ^ 31) / 2 ^ 32\<rfloor> - 2 ^ 31)"
  by (simp add: unwrap_def fl_sub_def)



lemma correct_adc_avg:
  "avg_on self \<Longrightarrow>
   adc (correct_adc self) =
     (map (\<lambda>v. fl_mul (fl_sub (fl_div (unwrap v)
                    (Fin (real (unat (dvm_read (dvm (lase_base self)) (status (lase_base self))
                       (n_avg1_off (lase_base self)))))))
                  (fst (adc_offset self)))
                  (fl_div (fst (optical_power self)) (fst (power self)))) (fst (adc self)),
      map (\<lambda>v. fl_mul (fl_sub (fl_div (unwrap v)
                    (Fin (real (unat (dvm_read (dvm (lase_base self)) (status (lase_base self))
                       (n_avg1_off (lase_base self)))))))
                  (snd (adc_offset self)))
                  (fl_div (snd (optical_power self)) (snd (power self)))) (snd (adc self)))"
  by (simp add: correct_adc_def Let_def map_both_def)

lemma correct_adc_is_failed [simp]: "is_failed (correct_adc self) = is_failed self"
  by (simp add: correct_adc_def Let_def)

lemma correct_adc_strobe [simp]: "\<not> strobe (correct_adc self)"
  by (simp add: correct_adc_def Let_def strobe_def dvm_clear_bit_def bit_unset_bit_iff)

lemma strobe_strobe_on [simp]: "strobe (strobe_on self)"
  by (simp add: strobe_on_def strobe_def dvm_set_bit_def bit_set_bit_iff)

lemma first_sample_read_buffer:
  "0 < len \<Longrightarrow> first_sample (dvm_read_buffer d m off len) = Inr (ram d m off)"
  by (simp add: first_sample_def dvm_read_buffer_def upt_conv_Cons)

text \<open>The example controller.\<close>

lemma example_fields:
  "lase_base (example_oscillo v) =
     (example_lase v)\<lparr>dvm := dvm_set_bit (dvm_set_bit (example_device v) 0 2 0) 0 3 0\<rparr>"
  "adc (example_oscillo v) = (replicate 8192 (Fin 0), replicate 8192 (Fin 0))"
  "adc_1 (example_oscillo v) = 0x42000000"
  "adc_2 (example_oscillo v) = 0x44000000"
  "avg_on (example_oscillo v) = False"
  "is_failed (example_oscillo v) = None"
  "adc_offset (example_oscillo v) = (Fin 0, Fin 0)"
  "optical_power (example_oscillo v) = (Fin 1, Fin 1)"
  "power (example_oscillo v) = (Fin 1, Fin 1)"
  by (simp_all add: example_oscillo_def init_def reset_def set_averaging_def Let_def
        example_ext_def example_lase_def)

lemma example_shaped: "shaped (example_oscillo v)"
  by (simp add: shaped_def example_fields example_lase_def)

lemma example_captured: "captured (example_oscillo v) = (replicate 8192 v, replicate 8192 v)"
  by (simp add: captured_def example_fields example_lase_def dvm_read_buffer_def
        dvm_set_bit_def example_device_def map_replicate_const)

lemma example_reception: "reception_failed (captured (example_oscillo v)) = Inr (isnan v)"
  by (simp add: captured_def reception_failed_def first_sample_read_buffer example_fields
        example_lase_def dvm_set_bit_def example_device_def)

lemma example_strobe: "\<not> strobe (example_oscillo v)"
  by (simp add: strobe_def example_fields example_lase_def dvm_set_bit_def example_device_def)



lemma hd_read_buffer: "0 < len \<Longrightarrow> hd (dvm_read_buffer d m off len) = ram d m off"
  by (simp add: dvm_read_buffer_def upt_conv_Cons)

lemma reception_failed_captured:
  "0 < lase_n (lase_base self) \<Longrightarrow>
   reception_failed (captured self) =
     Inr (isnan (hd (fst (captured self))) \<or> isnan (hd (snd (captured self))))"
  by (simp add: reception_failed_def captured_def first_sample_read_buffer hd_read_buffer)

lemma strobe_fault_state [simp]:
  "strobe (strobe_on self\<lparr>adc := a, is_failed := f\<rparr>)"
  by (simp add: strobe_on_def strobe_def dvm_set_bit_def bit_set_bit_iff)

text \<open>
  Claim C2. When the first sample of either channel reads as not-a-number, \<open>get_adc\<close>
  sets the failure flag and returns at once: the buffers hold the samples as read, with
  no remap, no division by the averaging count and no offset or gain applied.
\<close>

theorem get_adc_reception_fault:
  assumes "shaped self" and "0 < lase_n (lase_base self)"
    and "isnan (hd (fst (captured self))) \<or> isnan (hd (snd (captured self)))"
  shows "get_adc self =
     (Inr (), strobe_on self\<lparr>adc := captured self, is_failed := Some True\<rparr>)"
  using assms by (simp add: get_adc_read reception_failed_captured)

theorem get_adc_reception_fault_witness:
  "shaped (example_oscillo NaN) \<and>
   0 < lase_n (lase_base (example_oscillo NaN)) \<and>
   isnan (hd (fst (captured (example_oscillo NaN)))) \<and>
   fst (get_adc (example_oscillo NaN)) = Inr () \<and>
   is_failed (snd (get_adc (example_oscillo NaN))) = Some True \<and>
   adc (snd (get_adc (example_oscillo NaN))) = (replicate 8192 NaN, replicate 8192 NaN)"
proof -
  let ?s = "example_oscillo NaN"
  have h1: "shaped ?s" by (rule example_shaped)
  have h2: "0 < lase_n (lase_base ?s)" by (simp add: example_fields example_lase_def)
  have h3: "isnan (hd (fst (captured ?s)))" by (simp add: example_captured isnan_def)
  then have h3': "isnan (hd (fst (captured ?s))) \<or> isnan (hd (snd (captured ?s)))" by simp
  show ?thesis
    using get_adc_reception_fault [OF h1 h2 h3'] h1 h2 h3
    by (simp add: example_captured)
qed

text \<open>
  The shape is an invariant of the acquisition, and the constructor establishes it when
  the reset of the base object keeps its sample count.
\<close>

lemma get_adc_shaped: "shaped self \<Longrightarrow> shaped (snd (get_adc self))"
  by (simp add: get_adc_read shaped_def captured_def strobe_on_def correct_adc_def Let_def
        map_both_def dvm_clear_bit_def split: sum.splits bool.splits)

lemma init_shaped:
  "lase_n (Lase_reset x (lb\<lparr>dvm := snd (add_memory_map x
      (snd (add_memory_map x (dvm lb) 0x42000000 (lase_n lb div 1024 * map_size)))
      0x44000000 (lase_n lb div 1024 * map_size))\<rparr>)) = lase_n lb \<Longrightarrow>
   shaped (init x lb map_size)"
  by (simp add: init_def reset_def set_averaging_def Let_def shaped_def)

text \<open>On the not-a-number path the strobe bit is still set when the call returns.\<close>

lemma get_adc_fault_strobe:
  assumes "shaped self" and "0 < lase_n (lase_base self)"
    and "isnan (hd (fst (captured self))) \<or> isnan (hd (snd (captured self)))"
  shows "strobe (snd (get_adc self))"
  using assms by (simp add: get_adc_read reception_failed_captured)

text \<open>
  Claim C3. The address-strobe bit should be cleared again before every return of
  \<open>get_adc\<close>. The return of the reception check comes before the statement that clears
  it: on a device whose reads deliver not-a-number the call returns normally with the
  bit still set, while a call that passes the check clears it.
\<close>

theorem get_adc_fault_leaves_strobe_set:
  "\<not> strobe (example_oscillo NaN) \<and>
   fst (get_adc (example_oscillo NaN)) = Inr () \<and>
   strobe (snd (get_adc (example_oscillo NaN))) \<and>
   \<not> strobe (snd (get_adc (example_oscillo (Fin 0))))"
  by (simp add: get_adc_read example_shaped example_reception example_strobe isnan_def)

lemma not_finite_div_zero: "\<not> isfinite (fl_div v (Fin 0))"
  by (cases v) (simp_all add: isfinite_def inf_times_def)

lemma not_finite_sub: "\<not> isfinite v \<Longrightarrow> \<not> isfinite (fl_sub v w)"
  by (cases v; cases w) (simp_all add: isfinite_def fl_sub_def)

lemma not_finite_mul: "\<not> isfinite v \<Longrightarrow> \<not> isfinite (fl_mul v w)"
  by (cases v; cases w) (simp_all add: isfinite_def inf_times_def)

lemma avg_count_strobe_on:
  "unat (dvm_read (dvm (lase_base (strobe_on self\<lparr>adc := a\<rparr>)))
           (status (lase_base (strobe_on self\<lparr>adc := a\<rparr>)))
           (n_avg1_off (lase_base (strobe_on self\<lparr>adc := a\<rparr>)))) = avg_count self"
  by (simp add: avg_count_def strobe_on_def)

lemma get_adc_averaged:
  assumes "shaped self" and "avg_on self" and "reception_failed (captured self) = Inr False"
  shows "get_adc self = (Inr (), correct_adc (strobe_on self\<lparr>adc := captured self\<rparr>))"
  using assms by (simp add: get_adc_read)

lemma get_adc_averaged_adc:
  assumes "shaped self" and "avg_on self" and "reception_failed (captured self) = Inr False"
  shows "adc (snd (get_adc self)) =
       (map (\<lambda>x. fl_mul (fl_sub (fl_div (unwrap x) (Fin (real (avg_count self))))
                      (fst (adc_offset self)))
                    (fl_div (fst (optical_power self)) (fst (power self)))) (fst (captured self)),
        map (\<lambda>x. fl_mul (fl_sub (fl_div (unwrap x) (Fin (real (avg_count self))))
                      (snd (adc_offset self)))
                    (fl_div (snd (optical_power self)) (snd (power self)))) (snd (captured self)))"
proof -
  have av: "avg_on (strobe_on self\<lparr>adc := captured self\<rparr>)"
    using assms(2) by (simp add: strobe_on_def)
  show ?thesis
    unfolding get_adc_averaged [OF assms] snd_conv correct_adc_avg [OF av] avg_count_strobe_on
    by (simp add: strobe_on_def)
qed


text \<open>
  Claim C4, as the code has it. With averaging on and an averaging count that reads zero,
  \<open>get_adc\<close> raises nothing and leaves the failure flag as it was: it divides by the
  zero count, and every sample it leaves in the buffers is an infinity or not-a-number.
\<close>

theorem get_adc_zero_count:
  assumes "shaped self" and "avg_on self" and "reception_failed (captured self) = Inr False"
    and "avg_count self = 0"
  shows "fst (get_adc self) = Inr () \<and>
     is_failed (snd (get_adc self)) = is_failed self \<and>
     list_all (\<lambda>v. \<not> isfinite v) (fst (adc (snd (get_adc self)))) \<and>
     list_all (\<lambda>v. \<not> isfinite v) (snd (adc (snd (get_adc self))))"
proof -
  note g = get_adc_averaged [OF assms(1-3)]
  note a = get_adc_averaged_adc [OF assms(1-3)]
  have "is_failed (snd (get_adc self)) = is_failed self"
    by (simp add: g strobe_on_def)
  moreover have "fst (get_adc self) = Inr ()"
    by (simp add: g)
  moreover have "list_all (\<lambda>v. \<not> isfinite v) (fst (adc (snd (get_adc self))))"
    by (simp add: a assms(4) list_all_iff not_finite_div_zero not_finite_sub not_finite_mul)
  moreover have "list_all (\<lambda>v. \<not> isfinite v) (snd (adc (snd (get_adc self))))"
    by (simp add: a assms(4) list_all_iff not_finite_div_zero not_finite_sub not_finite_mul)
  ultimately show ?thesis by simp
qed

lemma example_avg_lase:
  "lase_n (lase_base (set_averaging True (example_oscillo v))) = 8192"
  "avg_on (set_averaging True (example_oscillo v))"
  "adc (set_averaging True (example_oscillo v)) = (replicate 8192 (Fin 0), replicate 8192 (Fin 0))"
  "is_failed (set_averaging True (example_oscillo v)) = None"
  "adc_offset (set_averaging True (example_oscillo v)) = (Fin 0, Fin 0)"
  "optical_power (set_averaging True (example_oscillo v)) = (Fin 1, Fin 1)"
  "power (set_averaging True (example_oscillo v)) = (Fin 1, Fin 1)"
  by (simp_all add: set_averaging_def Let_def example_fields example_lase_def)

lemma example_avg_shaped: "shaped (set_averaging True (example_oscillo v))"
  by (simp add: shaped_def example_avg_lase)

lemma example_avg_captured:
  "captured (set_averaging True (example_oscillo v)) = (replicate 8192 v, replicate 8192 v)"
  by (simp add: captured_def set_averaging_def Let_def example_fields example_lase_def
        dvm_read_buffer_def dvm_set_bit_def dvm_clear_bit_def example_device_def
        map_replicate_const)

lemma example_avg_reception:
  "reception_failed (captured (set_averaging True (example_oscillo v))) = Inr (isnan v)"
proof -
  have "0 < lase_n (lase_base (set_averaging True (example_oscillo v)))"
    by (simp add: example_avg_lase)
  from reception_failed_captured [OF this] show ?thesis
    by (simp add: example_avg_captured)
qed

lemma example_avg_count: "avg_count (set_averaging True (example_oscillo v)) = 0"
  by (simp add: avg_count_def strobe_on_def set_averaging_def Let_def example_fields
        example_lase_def dvm_read_def dvm_set_bit_def dvm_clear_bit_def example_device_def)


theorem get_adc_zero_count_witness:
  "shaped (set_averaging True (example_oscillo (Fin 1))) \<and>
   avg_on (set_averaging True (example_oscillo (Fin 1))) \<and>
   reception_failed (captured (set_averaging True (example_oscillo (Fin 1)))) = Inr False \<and>
   avg_count (set_averaging True (example_oscillo (Fin 1))) = 0 \<and>
   fst (get_adc (set_averaging True (example_oscillo (Fin 1)))) = Inr () \<and>
   is_failed (snd (get_adc (set_averaging True (example_oscillo (Fin 1))))) = None \<and>
   list_all (\<lambda>v. \<not> isfinite v)
     (fst (adc (snd (get_adc (set_averaging True (example_oscillo (Fin 1)))))))"
proof -
  let ?s = "set_averaging True (example_oscillo (Fin 1))"
  have h1: "shaped ?s" by (rule example_avg_shaped)
  have h2: "avg_on ?s" by (rule example_avg_lase)
  have h3: "reception_failed (captured ?s) = Inr False"
    by (simp add: example_avg_reception isnan_def)
  have h4: "avg_count ?s = 0" by (rule example_avg_count)
  show ?thesis
    using get_adc_zero_count [OF h1 h2 h3 h4] h1 h2 h3 h4
    by (simp add: example_avg_lase)
qed

text \<open>
  Claim C4 as stated fails: on the example controller with averaging switched on the
  count register reads zero, and the call returns normally, leaves the failure flag
  unset and fills both buffers with infinities.
\<close>

theorem get_adc_zero_count_counterexample:
  "avg_on (set_averaging True (example_oscillo (Fin 1))) \<and>
   avg_count (set_averaging True (example_oscillo (Fin 1))) = 0 \<and>
   fst (get_adc (set_averaging True (example_oscillo (Fin 1)))) = Inr () \<and>
   is_failed (snd (get_adc (set_averaging True (example_oscillo (Fin 1))))) = None \<and>
   adc (snd (get_adc (set_averaging True (example_oscillo (Fin 1))))) =
     (replicate 8192 PInf, replicate 8192 PInf)"
proof -
  let ?s = "set_averaging True (example_oscillo (Fin 1))"
  have h1: "shaped ?s" by (rule example_avg_shaped)
  have h2: "avg_on ?s" by (rule example_avg_lase)
  have h3: "reception_failed (captured ?s) = Inr False"
    by (simp add: example_avg_reception isnan_def)
  have u: "unwrap (Fin 1) = Fin 1" by (simp add: unwrap_Fin)
  have "adc (snd (get_adc ?s)) = (replicate 8192 PInf, replicate 8192 PInf)"
    by (simp add: get_adc_averaged_adc [OF h1 h2 h3] example_avg_captured example_avg_count
          example_avg_lase u fl_sub_def inf_times_def)
  moreover have "fst (get_adc ?s) = Inr ()"
    by (simp add: get_adc_averaged [OF h1 h2 h3])
  moreover have "is_failed (snd (get_adc ?s)) = None"
    by (simp add: get_adc_averaged [OF h1 h2 h3] strobe_on_def example_avg_lase)
  ultimately show ?thesis using h2 by (simp add: example_avg_count)
qed

section \<open>Properties of the attribute lookup\<close>

lemma getattr_sampling [simp]: "getattr self ''sampling'' v = Inl (AttributeError ''sampling'')"
  by (simp add: getattr_def instance_attributes_def class_attributes_def
        split: option.splits)

lemma getattr_dac [simp]: "getattr self ''dac'' v = Inl (AttributeError ''dac'')"
  by (simp add: getattr_def instance_attributes_def class_attributes_def
        split: option.splits)

lemma getattr_set_dac [simp]: "getattr self ''set_dac'' v = Inl (AttributeError ''set_dac'')"
  by (simp add: getattr_def instance_attributes_def class_attributes_def
        split: option.splits)

lemma get_amplitude_transfer_function_raises:
  "get_amplitude_transfer_function x channel_dac channel_adc transfer_avg self =
     (Inl (AttributeError ''sampling''), self)"
  by (simp add: get_amplitude_transfer_function_def)

lemma get_avg_spectrum_raises:
  "get_avg_spectrum x n_avg self = (Inl (AttributeError ''sampling''), self)"
  by (simp add: get_avg_spectrum_def)

lemma get_spectrum_raises:
  "get_spectrum x self =
     (if fst (adc self) = [] \<or> snd (adc self) = [] then Inl ValueError
      else Inl (AttributeError ''sampling''), self)"
  by (simp add: get_spectrum_def fft_def bindE_def)

lemma white_noise_raises:
  assumes "2 \<le> n_freqs"
  shows "white_noise x k n_freqs None self = Inl (AttributeError ''sampling'')"
proof -
  have "2 * (n_freqs - 1) \<noteq> 0" using assms by simp
  then show ?thesis
    by (simp add: white_noise_def Let_def broadcast2_def irfft_def fft_def set_item_def
          bindE_def)
qed

text \<open>
  Claim C5. After \<open>get_amplitude_transfer_function\<close> with at least one trial, bin 0 of
  the transfer function should be exactly 1 and the driven output channel all zeros. The
  first statement of the method reads \<open>self.sampling\<close>, which the object does not
  have: the call raises and changes nothing. On a controller whose transfer function was
  set to the constant 2, bin 0 is still 2 afterwards.
\<close>

theorem get_amplitude_transfer_function_attribute_error:
  "get_amplitude_transfer_function example_ext 0 0 1
     (set_amplitude_transfer_function (replicate 8192 (c_of_fl (Fin 2))) (example_oscillo (Fin 0))) =
   (Inl (AttributeError ''sampling''),
    set_amplitude_transfer_function (replicate 8192 (c_of_fl (Fin 2))) (example_oscillo (Fin 0))) \<and>
   hd (amplitude_transfer_function
         (set_amplitude_transfer_function (replicate 8192 (c_of_fl (Fin 2)))
            (example_oscillo (Fin 0)))) = c_of_fl (Fin 2)"
  by (simp add: get_amplitude_transfer_function_raises set_amplitude_transfer_function_def)

text \<open>
  Claim C6. For \<open>n_freqs \<ge> 2\<close> the probe generator should return a waveform of
  \<open>2 * (n_freqs - 1)\<close> samples with peak at most \<open>1/1.7\<close>, from a spectrum with bin 0
  pinned to 0.01 and the Nyquist bin pinned to 1. The statement that pins the Nyquist
  bin reads \<open>self.sampling\<close>: the call raises and returns no waveform.
\<close>

theorem white_noise_attribute_error:
  "white_noise example_ext 0 4097 None (example_oscillo (Fin 0)) =
     Inl (AttributeError ''sampling'')"
  by (rule white_noise_raises) simp

text \<open>
  Claim C7. \<open>get_avg_spectrum(1)\<close> should yield the result of one \<open>get_spectrum()\<close> on
  the same data. Both methods read \<open>self.sampling\<close>: both raise, the first before it
  acquires anything, and neither stores a spectrum.
\<close>

theorem get_avg_spectrum_attribute_error:
  "get_avg_spectrum example_ext 1 (example_oscillo (Fin 0)) =
     (Inl (AttributeError ''sampling''), example_oscillo (Fin 0)) \<and>
   get_spectrum example_ext (example_oscillo (Fin 0)) =
     (Inl (AttributeError ''sampling''), example_oscillo (Fin 0))"
  by (simp add: get_avg_spectrum_raises get_spectrum_raises example_fields)

section \<open>Properties of the transfer function\<close>

lemma init_transfer_function:
  "amplitude_transfer_function (init x lb map_size) =
     replicate (sampling_n (sampling lb)) (c_of_fl (Fin 1))"
  by (simp add: init_def reset_def set_averaging_def Let_def)

lemma correct_adc_transfer_function [simp]:
  "amplitude_transfer_function (correct_adc self) = amplitude_transfer_function self"
  by (simp add: correct_adc_def Let_def)

lemma get_adc_transfer_function [simp]:
  "amplitude_transfer_function (snd (get_adc self)) = amplitude_transfer_function self"
  by (simp add: get_adc_def Let_def split: sum.splits bool.splits)

lemma set_averaging_transfer_function [simp]:
  "amplitude_transfer_function (set_averaging on self) = amplitude_transfer_function self"
  by (simp add: set_averaging_def Let_def)

lemma optimize_amplitude_transfer_function [simp]:
  "amplitude_transfer_function (snd (optimize_amplitude x alpha channel self)) =
     amplitude_transfer_function self"
  by (simp add: optimize_amplitude_def Let_def bindE_def split: sum.splits)

lemma run_transfer_function:
  "\<not> is_setter c \<Longrightarrow>
   amplitude_transfer_function (run x c self) = amplitude_transfer_function self"
  by (cases c)
     (simp_all add: reset_def Let_def get_amplitude_transfer_function_raises
        get_spectrum_raises get_avg_spectrum_raises)

lemma run_all_transfer_function:
  "list_all (\<lambda>c. \<not> is_setter c) cs \<Longrightarrow>
   amplitude_transfer_function (run_all x cs self) = amplitude_transfer_function self"
proof (induction cs arbitrary: self)
  case Nil
  then show ?case by simp
next
  case (Cons c cs)
  then show ?case by (simp add: run_transfer_function)
qed

text \<open>
  Claim C9, as the code has it. As long as \<open>set_amplitude_transfer_function\<close> is not
  called, the transfer function has \<open>sampling.n\<close> entries at every point of the
  controller's lifetime: after construction and after every further call, the estimator
  included. \<open>set_amplitude_transfer_function\<close> stores the array it is given without a
  check, and from then on the transfer function has the length of that array, until the
  next such call.
\<close>

theorem transfer_function_length:
  assumes "list_all (\<lambda>c. \<not> is_setter c) cs"
  shows "length (amplitude_transfer_function (run_all x cs (init x lb map_size))) =
       sampling_n (sampling lb) \<and>
     length (amplitude_transfer_function
               (run_all x cs (set_amplitude_transfer_function tf self))) = length tf"
  using assms
  by (simp add: run_all_transfer_function init_transfer_function
        set_amplitude_transfer_function_def)

theorem transfer_function_length_witness:
  "list_all (\<lambda>c. \<not> is_setter c)
     [Reset, Get_adc, Get_amplitude_transfer_function 0 0 1, Optimize_amplitude (Fin 1) 0,
      Get_avg_spectrum 1] \<and>
   length (amplitude_transfer_function
             (run_all example_ext
                [Reset, Get_adc, Get_amplitude_transfer_function 0 0 1,
                 Optimize_amplitude (Fin 1) 0, Get_avg_spectrum 1]
                (example_oscillo (Fin 0)))) = 8192 \<and>
   length (amplitude_transfer_function
             (run_all example_ext
                [Reset, Get_adc, Get_amplitude_transfer_function 0 0 1,
                 Optimize_amplitude (Fin 1) 0, Get_avg_spectrum 1]
                (set_amplitude_transfer_function [c_of_fl (Fin 1)] (example_oscillo (Fin 0))))) = 1"
proof -
  let ?cs = "[Reset, Get_adc, Get_amplitude_transfer_function 0 0 1,
              Optimize_amplitude (Fin 1) 0, Get_avg_spectrum 1]"
  have h: "list_all (\<lambda>c. \<not> is_setter c) ?cs" by simp
  show ?thesis
    using transfer_function_length [OF h, of example_ext "example_lase (Fin 0)" 4096
        "[c_of_fl (Fin 1)]" "example_oscillo (Fin 0)"] h
    by (simp add: example_oscillo_def example_lase_def)
qed

text \<open>
  Claim C9 as stated fails: with 8192 samples the claimed length is 4097, but after
  \<open>set_amplitude_transfer_function\<close> with an array of one entry the length is 1, and
  after construction it is 8192.
\<close>

theorem transfer_function_length_counterexample:
  "length (amplitude_transfer_function
             (set_amplitude_transfer_function [c_of_fl (Fin 1)] (example_oscillo (Fin 0)))) \<noteq>
     lase_n (lase_base (example_oscillo (Fin 0))) div 2 + 1 \<and>
   length (amplitude_transfer_function (example_oscillo (Fin 0))) \<noteq>
     lase_n (lase_base (example_oscillo (Fin 0))) div 2 + 1"
proof -
  have a: "amplitude_transfer_function (example_oscillo (Fin 0)) =
      replicate 8192 (c_of_fl (Fin 1))"
    by (simp add: example_oscillo_def init_transfer_function example_lase_def)
  have n: "lase_n (lase_base (example_oscillo (Fin 0))) = 8192"
    by (simp add: example_fields example_lase_def)
  show ?thesis
    by (simp add: a n set_amplitude_transfer_function_def)
qed

section \<open>Properties of the amplitude optimisation\<close>








lemma correct_adc_ideal [simp]:
  "ideal_amplitude_waveform (correct_adc self) = ideal_amplitude_waveform self"
  by (simp add: correct_adc_def Let_def)









section \<open>Properties of the failure flag\<close>

lemma init_is_failed: "is_failed (init x lb map_size) = None"
  by (simp add: init_def reset_def set_averaging_def Let_def)

lemma set_averaging_is_failed [simp]: "is_failed (set_averaging on self) = is_failed self"
  by (simp add: set_averaging_def Let_def)

lemma reset_is_failed [simp]: "is_failed (reset x self) = is_failed self"
  by (simp add: reset_def Let_def)

lemma get_adc_is_failed:
  "is_failed (snd (get_adc self)) = is_failed self \<or>
   is_failed (snd (get_adc self)) = Some True"
  by (simp add: get_adc_def Let_def split: sum.splits bool.splits)

lemma optimize_amplitude_is_failed [simp]:
  "is_failed (snd (optimize_amplitude x alpha channel self)) = is_failed self"
  by (simp add: optimize_amplitude_def Let_def bindE_def split: sum.splits)

lemma get_spectrum_is_failed [simp]: "is_failed (snd (get_spectrum x self)) = is_failed self"
  by (simp add: get_spectrum_raises)

lemma run_is_failed:
  "is_failed (run x c self) = is_failed self \<or>
   (c = Get_adc \<and> is_failed (run x c self) = Some True)"
  using get_adc_is_failed [of self]
  by (cases c)
     (auto simp add: get_amplitude_transfer_function_raises get_avg_spectrum_raises
        set_amplitude_transfer_function_def)

lemma run_all_not_False:
  "is_failed self \<noteq> Some False \<Longrightarrow> is_failed (run_all x cs self) \<noteq> Some False"
proof (induction cs arbitrary: self)
  case Nil
  then show ?case by simp
next
  case (Cons c cs)
  have "is_failed (run x c self) \<noteq> Some False"
    using run_is_failed [of x c self] Cons.prems by auto
  then show ?case using Cons.IH by simp
qed

lemma run_all_stays_True:
  "is_failed self = Some True \<Longrightarrow> is_failed (run_all x cs self) = Some True"
proof (induction cs arbitrary: self)
  case Nil
  then show ?case by simp
next
  case (Cons c cs)
  have "is_failed (run x c self) = Some True"
    using run_is_failed [of x c self] Cons.prems by auto
  then show ?case using Cons.IH by simp
qed

lemma get_adc_no_fault_is_failed:
  assumes "shaped self" and "reception_failed (captured self) \<noteq> Inr True"
  shows "is_failed (snd (get_adc self)) = is_failed self"
  using assms
  by (simp add: get_adc_read strobe_on_def split: sum.splits bool.splits)

text \<open>
  Claim C10. No operation assigns the failure flag the value false: the constructor
  leaves the attribute absent, \<open>reset\<close> and an acquisition without reception fault
  leave it as it is, a call changes it only if it is an acquisition and then to true;
  so it is never false after construction, and once true it stays true.
\<close>

theorem failure_flag_sticky:
  "is_failed (init x lb map_size) = None \<and>
   is_failed (reset x self) = is_failed self \<and>
   (shaped self \<longrightarrow> reception_failed (captured self) \<noteq> Inr True \<longrightarrow>
      is_failed (snd (get_adc self)) = is_failed self) \<and>
   (is_failed (run x c self) = is_failed self \<or>
      (c = Get_adc \<and> is_failed (run x c self) = Some True)) \<and>
   is_failed (run_all x cs (init x lb map_size)) \<noteq> Some False \<and>
   (is_failed self = Some True \<longrightarrow> is_failed (run_all x cs self) = Some True)"
proof -
  have "is_failed (run_all x cs (init x lb map_size)) \<noteq> Some False"
    by (rule run_all_not_False) (simp add: init_is_failed)
  then show ?thesis
    using run_is_failed [of x c self]
    by (simp add: init_is_failed get_adc_no_fault_is_failed run_all_stays_True)
qed

theorem failure_flag_sticky_witness:
  "shaped (example_oscillo (Fin 0)) \<and>
   reception_failed (captured (example_oscillo (Fin 0))) \<noteq> Inr True \<and>
   is_failed (snd (get_adc (example_oscillo (Fin 0)))) = None \<and>
   is_failed (snd (get_adc (example_oscillo NaN))) = Some True \<and>
   is_failed (run_all example_ext
                [Reset, Get_adc, Set_averaging True, Get_adc, Get_avg_spectrum 1]
                (snd (get_adc (example_oscillo NaN)))) = Some True"
proof -
  let ?s0 = "example_oscillo (Fin 0)"
  let ?s1 = "snd (get_adc (example_oscillo NaN))"
  have h1: "shaped ?s0" by (rule example_shaped)
  have h2: "reception_failed (captured ?s0) \<noteq> Inr True"
    by (simp add: example_reception isnan_def)
  have h3: "is_failed ?s1 = Some True"
    by (simp add: get_adc_read example_shaped example_reception isnan_def)
  show ?thesis
    using failure_flag_sticky [of example_ext "example_lase (Fin 0)" 4096 ?s0 Get_adc "[]"]
      failure_flag_sticky [of example_ext "example_lase (Fin 0)" 4096 ?s1 Get_adc
        "[Reset, Get_adc, Set_averaging True, Get_adc, Get_avg_spectrum 1]"]
      h1 h2 h3
    by (simp add: example_fields)
qed

end
